theory Spec2Isabelle
  imports Main "HOL-Library.Sublist"
begin

section \<open>Python strings\<close>

text \<open>
  A Python \<open>str\<close> is modelled as a HOL \<open>string\<close>. The case functions are those of
  the ASCII letters; characters outside \<open>A-Z\<close> and \<open>a-z\<close> are neither upper nor lower
  case and are left alone by \<open>lower\<close> and \<open>upper\<close>.
\<close>

datatype py_error =
    IndexError
  | KeyError string
  | AssertionError
  | NotImplementedError
  | NameError string
  | AttributeError
  | OverflowError
  | RecursionError
  | ValueError string
  | LibraryError string

definition bslash :: char where
  "bslash = CHR 0x5C"

definition isupper :: "char \<Rightarrow> bool" where
  "isupper c = (65 \<le> (of_char c :: nat) \<and> (of_char c :: nat) \<le> 90)"

definition islower :: "char \<Rightarrow> bool" where
  "islower c = (97 \<le> (of_char c :: nat) \<and> (of_char c :: nat) \<le> 122)"

definition lower_chr :: "char \<Rightarrow> char" where
  "lower_chr c = (if isupper c then char_of ((of_char c :: nat) + 32) else c)"

definition upper_chr :: "char \<Rightarrow> char" where
  "upper_chr c = (if islower c then char_of ((of_char c :: nat) - 32) else c)"

definition lower :: "string \<Rightarrow> string" where
  "lower s = map lower_chr s"

definition upper :: "string \<Rightarrow> string" where
  "upper s = map upper_chr s"

definition startswith :: "string \<Rightarrow> string \<Rightarrow> bool" where
  "startswith s pre = prefix pre s"

text \<open>
  \<open>s.split(sep)\<close> for a non-empty separator: the pieces between the occurrences of
  \<open>sep\<close>, found from the left; the result always has at least one piece. Every call in
  the sources passes a non-empty literal (Python raises \<open>ValueError\<close> on an empty one).
\<close>

fun split_from :: "string \<Rightarrow> string \<Rightarrow> string \<Rightarrow> string list" where
  "split_from sep cur [] = [cur]"
| "split_from sep cur (c # cs) =
     (if sep \<noteq> [] \<and> prefix sep (c # cs)
      then cur # split_from sep [] (drop (length sep) (c # cs))
      else split_from sep (cur @ [c]) cs)"

definition split_str :: "string \<Rightarrow> string \<Rightarrow> string list" where
  "split_str sep s = split_from sep [] s"

text \<open>\<open>sep.join(parts)\<close>.\<close>

fun join_str :: "string \<Rightarrow> string list \<Rightarrow> string" where
  "join_str sep [] = []"
| "join_str sep [p] = p"
| "join_str sep (p # q # ps) = p @ sep @ join_str sep (q # ps)"

text \<open>
  \<open>s.replace(old, new)\<close>: every non-overlapping occurrence of \<open>old\<close>, from the left.
  With an empty \<open>old\<close> Python puts \<open>new\<close> before every character and at the end.
\<close>

fun replace_from :: "string \<Rightarrow> string \<Rightarrow> string \<Rightarrow> string" where
  "replace_from old new [] = []"
| "replace_from old new (c # cs) =
     (if old \<noteq> [] \<and> prefix old (c # cs)
      then new @ replace_from old new (drop (length old) (c # cs))
      else c # replace_from old new cs)"

definition replace_str :: "string \<Rightarrow> string \<Rightarrow> string \<Rightarrow> string" where
  "replace_str old new s =
     (if old = [] then new @ concat (map (\<lambda>c. c # new) s) else replace_from old new s)"

section \<open>in\_out.py: path dialects\<close>

text \<open>
  \<open>is_win\<close> reads \<open>path[1]\<close> first and then \<open>path[0]\<close>: on a path shorter than two
  characters the first read raises \<open>IndexError\<close>.
\<close>

definition is_win :: "string \<Rightarrow> py_error + bool" where
  "is_win path =
     (if length path < 2 then Inl IndexError
      else if path ! 1 = CHR '':'' \<and> isupper (path ! 0) then Inr True
      else Inr False)"

definition is_linux :: "string \<Rightarrow> bool" where
  "is_linux path = (if startswith path ''/'' then True else False)"

definition win_to_linux :: "string \<Rightarrow> string" where
  "win_to_linux path =
     (if is_linux path then path
      else (let parts = split_str '':'' path;
                parts = (''/mnt/'' @ lower (hd parts)) # tl parts;
                path = join_str [] parts
            in replace_str [bslash] ''/'' path))"

definition linux_to_win :: "string \<Rightarrow> py_error + string" where
  "linux_to_win path =
     (case is_win path of
        Inl e \<Rightarrow> Inl e
      | Inr True \<Rightarrow> Inr path
      | Inr False \<Rightarrow>
          (let path = replace_str ''/mnt/'' [] path;
               parts = split_str ''/'' path;
               parts = (upper (hd parts) @ '':'') # tl parts
           in Inr (join_str [bslash] parts)))"

text \<open>
  \<open>adj_path\<close> takes what \<open>platform.system()\<close> returns as the argument \<open>system\<close>.
  Its \<open>try\<close> catches \<open>IndexError\<close> only and then returns the path it was given.
\<close>

definition adj_path :: "string \<Rightarrow> string \<Rightarrow> py_error + string" where
  "adj_path system path =
     (let body =
        (case is_win path of
           Inl e \<Rightarrow> Inl e
         | Inr True \<Rightarrow>
             (if lower system = ''linux'' then Inr (win_to_linux path) else Inr path)
         | Inr False \<Rightarrow>
             (if is_linux path
              then (if lower system = ''windows'' then linux_to_win path else Inr path)
              else Inr path))
      in case body of Inl IndexError \<Rightarrow> Inr path | r \<Rightarrow> r)"

section \<open>utils.py: instrument lookups\<close>

text \<open>
  An entry of the instrument master list, with the four keys the lookups read.
\<close>

record instrument =
  name :: string
  symbol :: string
  exch_seg :: string
  token :: string

definition is_equity :: "instrument \<Rightarrow> bool" where
  "is_equity i = (last (split_str ''-'' (symbol i)) = ''EQ'')"

text \<open>
  Both lookups return from inside the loop at the first match and fall off the end of the
  function, returning \<open>None\<close>, when no instrument matches. The parameter
  \<open>exchange\<close> defaults to \<open>''NSE''\<close>.
\<close>

fun token_lookup :: "string \<Rightarrow> instrument list \<Rightarrow> string \<Rightarrow> string option" where
  "token_lookup ticker [] exchange = None"
| "token_lookup ticker (i # instrument_list) exchange =
     (if name i = ticker \<and> exch_seg i = exchange \<and> is_equity i
      then Some (token i)
      else token_lookup ticker instrument_list exchange)"

fun symbol_lookup :: "string \<Rightarrow> instrument list \<Rightarrow> string \<Rightarrow> string option" where
  "symbol_lookup tok [] exchange = None"
| "symbol_lookup tok (i # instrument_list) exchange =
     (if token i = tok \<and> exch_seg i = exchange \<and> is_equity i
      then Some (name i)
      else symbol_lookup tok instrument_list exchange)"

definition all_equities :: "instrument list \<Rightarrow> instrument list" where
  "all_equities instrument_list = filter is_equity instrument_list"

text \<open>The equity instrument of the lookup example, and the same instrument as a future.\<close>

definition foo_eq :: instrument where
  "foo_eq = \<lparr>name = ''FOO'', symbol = ''FOO-EQ'', exch_seg = ''NSE'', token = ''123''\<rparr>"

definition foo_fut :: instrument where
  "foo_fut = \<lparr>name = ''FOO'', symbol = ''FOO-FUT'', exch_seg = ''NSE'', token = ''123''\<rparr>"

text \<open>A second equity, for lists with more than one instrument.\<close>

definition bar_eq :: instrument where
  "bar_eq = \<lparr>name = ''BAR'', symbol = ''BAR-EQ'', exch_seg = ''NSE'', token = ''456''\<rparr>"

section \<open>utils.py: historical candles\<close>

text \<open>
  A \<open>date\<close> is its proleptic Gregorian ordinal (day 1 is 0001-01-01, the last day is
  9999-12-31); a naive \<open>datetime\<close> is counted in minutes from 00:00 of day 0, which is
  exact here because every value the function builds is a whole minute. Arithmetic that
  leaves the range of the type raises \<open>OverflowError\<close>.
\<close>

definition max_ordinal :: int where
  "max_ordinal = 3652059"

definition date_minus_days :: "int \<Rightarrow> int \<Rightarrow> py_error + int" where
  "date_minus_days d n =
     (if 1 \<le> d - n \<and> d - n \<le> max_ordinal then Inr (d - n) else Inl OverflowError)"

definition datetime_of :: "int \<Rightarrow> int \<Rightarrow> int \<Rightarrow> int" where
  "datetime_of d h m = d * 1440 + h * 60 + m"

definition datetime_plus_days :: "int \<Rightarrow> int \<Rightarrow> py_error + int" where
  "datetime_plus_days t n =
     (if 1440 \<le> t + n * 1440 \<and> t + n * 1440 < (max_ordinal + 1) * 1440
      then Inr (t + n * 1440) else Inl OverflowError)"

text \<open>
  The \<open>date\<close> cell of a row the API returns, as \<open>pd.to_datetime\<close> reads it: the
  wall-clock minute and the UTC offset, if the text carries one. \<open>tz_localize(None)\<close>
  keeps the wall-clock minute and drops the offset.
\<close>

datatype stamp = Stamp int "int option"

fun tz_localize_none :: "stamp \<Rightarrow> int" where
  "tz_localize_none (Stamp wall offset) = wall"

record 'p candle =
  date :: stamp
  "open" :: 'p
  high :: 'p
  low :: 'p
  close :: 'p
  volume :: 'p

text \<open>
  The request mapping handed to \<open>getCandleData\<close>. The two datetimes are kept as values;
  the source formats them with \<open>%Y-%m-%d %H:%M\<close>, which loses nothing on whole minutes.
  \<open>symboltoken\<close> is what \<open>token_lookup\<close> returns, \<open>None\<close> included.
\<close>

record params =
  exchange :: string
  symboltoken :: "string option"
  interval :: string
  fromdate :: int
  todate :: int

datatype fetch_effect = Sleep nat | GetCandleData params

text \<open>
  The paging loop. \<open>obj\<close> stands for \<open>obj.getCandleData\<close> followed by the read of
  its \<open>data\<close> entry into a frame with the six candle columns; \<open>df_data\<close> is the
  frame accumulated by \<open>pd.concat\<close>, row after row; \<open>trace\<close> lists the pauses
  (in milliseconds) and the requests in the order they happen. The lookup inside the loop is
  called without an exchange, so with the default.
\<close>

function fetch_windows ::
  "(params \<Rightarrow> 'p candle list) \<Rightarrow> string \<Rightarrow> string \<Rightarrow> instrument list \<Rightarrow> string \<Rightarrow>
   int \<Rightarrow> int \<Rightarrow> int \<Rightarrow> 'p candle list \<Rightarrow> fetch_effect list \<Rightarrow>
   py_error + ('p candle list \<times> fetch_effect list)" where
  "fetch_windows obj ticker intv instrument_list exch end_date temp_st_date temp_end_date
     df_data trace =
     (if temp_end_date < end_date then
        (let request = \<lparr>exchange = exch,
                         symboltoken = token_lookup ticker instrument_list ''NSE'',
                         interval = intv,
                         fromdate = temp_st_date,
                         todate = temp_end_date\<rparr>;
             temp = obj request;
             df_data = df_data @ temp;
             trace = trace @ [Sleep 400, GetCandleData request]
         in case datetime_plus_days temp_end_date 1 of
              Inl e \<Rightarrow> Inl e
            | Inr temp_st_date \<Rightarrow>
                (case datetime_plus_days temp_st_date 30 of
                   Inl e \<Rightarrow> Inl e
                 | Inr temp_end_date \<Rightarrow>
                     fetch_windows obj ticker intv instrument_list exch end_date temp_st_date
                       (if temp_end_date > end_date then end_date else temp_end_date)
                       df_data trace))
      else Inr (df_data, trace))"
  by pat_completeness auto
termination
  by (relation "measure (\<lambda>(obj, ticker, intv, instrument_list, exch, end_date, temp_st_date,
        temp_end_date, df_data, trace). nat (end_date - temp_end_date))")
    (auto simp: datetime_plus_days_def split: if_splits)

declare fetch_windows.simps [simp del]

text \<open>
  After the loop: \<open>set_index("date")\<close> moves the date out of the columns into the index,
  the index is read as datetimes and made naive, and \<open>drop_duplicates(keep="first")\<close>
  removes every row whose columns equal those of an earlier row. The index is not a column
  any more at that point, so it does not take part in the comparison.
\<close>

definition set_index_date :: "'p candle list \<Rightarrow> (stamp \<times> 'p \<times> 'p \<times> 'p \<times> 'p \<times> 'p) list" where
  "set_index_date rows = map (\<lambda>r. (date r, open r, high r, low r, close r, volume r)) rows"

fun drop_duplicates_from :: "'v list \<Rightarrow> ('i \<times> 'v) list \<Rightarrow> ('i \<times> 'v) list" where
  "drop_duplicates_from seen [] = []"
| "drop_duplicates_from seen (r # rs) =
     (if snd r \<in> set seen then drop_duplicates_from seen rs
      else r # drop_duplicates_from (snd r # seen) rs)"

definition drop_duplicates :: "('i \<times> 'v) list \<Rightarrow> ('i \<times> 'v) list" where
  "drop_duplicates rows = drop_duplicates_from [] rows"

text \<open>
  \<open>today\<close> is the ordinal of \<open>dt.date.today()\<close>, read once. The result is the frame
  (index and the five value columns of each row) together with the trace of the loop. The
  rows are taken to carry one and the same UTC offset, as the rows of one exchange do;
  \<open>pd.to_datetime\<close> on an index of mixed offsets is not part of the model.
\<close>

definition hist_data_extended ::
  "int \<Rightarrow> (params \<Rightarrow> 'p candle list) \<Rightarrow> string \<Rightarrow> int \<Rightarrow> string \<Rightarrow> instrument list \<Rightarrow> string \<Rightarrow>
   py_error + ((int \<times> 'p \<times> 'p \<times> 'p \<times> 'p \<times> 'p) list \<times> fetch_effect list)" where
  "hist_data_extended today obj ticker duration intv instrument_list exch =
     (case date_minus_days today duration of
        Inl e \<Rightarrow> Inl e
      | Inr st_day \<Rightarrow>
     (case date_minus_days today 1 of
        Inl e \<Rightarrow> Inl e
      | Inr end_day \<Rightarrow>
     (let st_date = datetime_of st_day 3 30;
          end_date = datetime_of end_day 0 0
      in case datetime_plus_days st_date 30 of
           Inl e \<Rightarrow> Inl e
         | Inr temp_end_date \<Rightarrow>
        (case fetch_windows obj ticker intv instrument_list exch end_date st_date temp_end_date
                [] [] of
           Inl e \<Rightarrow> Inl e
         | Inr (df_data, trace) \<Rightarrow>
             Inr (drop_duplicates
                    (map (\<lambda>(i, v). (tz_localize_none i, v)) (set_index_date df_data)),
                  trace)))))"

text \<open>
  Three stand-ins for the brokerage API, with prices as integers. The first returns no row.
  The second returns one daily candle per request, always for the same day, with a close
  that differs from one request to the next. The third returns one candle per request, for
  the day the window starts, always with the same prices and volume.
\<close>

definition no_rows :: "params \<Rightarrow> int candle list" where
  "no_rows request = []"

definition same_day_rows :: "params \<Rightarrow> int candle list" where
  "same_day_rows request =
     [\<lparr>date = Stamp (datetime_of 738940 0 0) (Some 330),
       open = 100, high = 100, low = 100,
       close = (if fromdate request = datetime_of 738934 3 30 then 101 else 102),
       volume = 7\<rparr>]"

definition flat_rows :: "params \<Rightarrow> int candle list" where
  "flat_rows request =
     [\<lparr>date = Stamp (fromdate request) (Some 330),
       open = 100, high = 100, low = 100, close = 100, volume = 0\<rparr>]"

section \<open>in\_out.py: values, library and environment\<close>

text \<open>
  A \<open>DataFrame\<close> as far as the two functions look into it: the labelled columns in
  order (the content of a column, its cells and dtype, is of the type \<open>'c\<close> and is left to
  pandas), the number of rows, and the number of levels of the column header and of the row
  index.
\<close>

record 'c dataset =
  columns :: "(string \<times> 'c) list"
  nrows :: nat
  columns_nlevels :: nat
  index_nlevels :: nat

text \<open>\<open>pd.DataFrame()\<close>.\<close>

definition empty_frame :: "'c dataset" where
  "empty_frame = \<lparr>columns = [], nrows = 0, columns_nlevels = 1, index_nlevels = 1\<rparr>"

text \<open>
  The Python values that reach \<open>read\<close> and \<open>write\<close>. \<open>PyObject\<close> is any other
  object (a model, a connection, an open file), known by a number.
\<close>

datatype 'c pyval =
    PyNone
  | PyBool bool
  | PyInt int
  | PyStr string
  | PyList "'c pyval list"
  | PyDict "(string \<times> 'c pyval) list"
  | DataFrame "'c dataset"
  | PyObject nat

text \<open>
  The truth value of a value in an \<open>if\<close>; pandas raises \<open>ValueError\<close> for a
  frame.
\<close>

fun truthy :: "'c pyval \<Rightarrow> py_error + bool" where
  "truthy PyNone = Inr False"
| "truthy (PyBool b) = Inr b"
| "truthy (PyInt n) = Inr (n \<noteq> 0)"
| "truthy (PyStr s) = Inr (s \<noteq> [])"
| "truthy (PyList vs) = Inr (vs \<noteq> [])"
| "truthy (PyDict kvs) = Inr (kvs \<noteq> [])"
| "truthy (DataFrame d) = Inl (ValueError ''The truth value of a DataFrame is ambiguous'')"
| "truthy (PyObject n) = Inr True"

text \<open>
  The calls \<open>read\<close> makes into pandas, pickle, joblib, yaml, the built-in \<open>open\<close>
  and the model object. Each returns a value or raises; what it does is the environment's.
  The keyword options of \<open>read\<close> are passed on to these calls unchanged and are not
  repeated here. \<open>ColsToDatetime\<close> is the frame method \<open>pd_cols_to_datetime\<close>, which
  is not defined in this repository; \<open>DecodeBytes\<close> is the decoding of the byte-string
  columns after \<open>pd.read_sas\<close>.
\<close>

datatype 'c libcall =
    PdConcat "'c pyval list"
  | PdReadParquet string
  | PdReadExcel string
  | PdReadCsv string
  | PdReadSas string
  | PdReadFeather string
  | PdReadSql string "'c pyval"
  | OpenFile string string
  | PklLoad "'c pyval"
  | JoblibLoad string
  | YamlSafeLoad "'c pyval"
  | FileRead "'c pyval"
  | LoadModel "'c pyval" "'c pyval"
  | Load "'c pyval" "'c pyval"
  | ColsToDatetime "'c dataset"
  | DecodeBytes "'c dataset"

text \<open>What \<open>write\<close> does to the outside, in order.\<close>

datatype 'c io_effect =
    MakeDirsParent string
  | ExcelWriterOpen string
  | ExcelWriterClose string
  | ToExcelSheet "'c dataset" string nat nat
  | ToExcelFile "'c dataset" string
  | ToCsv "'c dataset" string
  | ToParquet "'c dataset" string
  | ToFeather "'c dataset" string
  | OpenForWrite string string
  | PklDump "'c pyval"
  | YamlDump "'c pyval"
  | JoblibDump "'c pyval"
  | CloseFile
  | SaveModel "'c pyval" string
  | Print string string py_error

text \<open>
  The environment of the two functions:
  \<^item> \<open>system\<close> is what \<open>platform.system()\<close> returns;
  \<^item> \<open>storage_options_defined\<close> says whether the embedding application has assigned the
    module-level name \<open>storage_options\<close>, which this module reads and never defines; a
    read of it before that raises \<open>NameError\<close>;
  \<^item> \<open>splitext\<close>, \<open>basename\<close> and \<open>path_join\<close> are the functions of \<open>os.path\<close>
    on the host, \<open>glob\<close> is \<open>glob.glob\<close>;
  \<^item> \<open>lib\<close> answers the calls of \<open>read\<close>;
  \<open>astype_str\<close> is \<open>astype(str)\<close> on a column;
  \<^item> \<open>to_parquet\<close> and \<open>to_excel\<close> give the outcome of the two writes whose failure
    \<open>write\<close> handles, from what was done so far, the frame and the path or sheet:
    \<open>None\<close> for success, otherwise the text of the exception (for \<open>to_parquet\<close>) or
    the exception (for \<open>to_excel\<close>). The other writes are recorded as effects.
\<close>

record 'c env =
  system :: string
  storage_options_defined :: bool
  splitext :: "string \<Rightarrow> string \<times> string"
  basename :: "string \<Rightarrow> string"
  path_join :: "string \<Rightarrow> string \<Rightarrow> string"
  glob :: "string \<Rightarrow> string list"
  lib :: "'c libcall \<Rightarrow> py_error + 'c pyval"
  astype_str :: "'c \<Rightarrow> 'c"
  to_parquet :: "'c io_effect list \<Rightarrow> 'c dataset \<Rightarrow> string \<Rightarrow> string option"
  to_excel :: "'c io_effect list \<Rightarrow> 'c dataset \<Rightarrow> string \<Rightarrow> py_error option"

text \<open>Sequencing of steps that may raise.\<close>

definition and_then :: "py_error + 'a \<Rightarrow> ('a \<Rightarrow> py_error + 'b) \<Rightarrow> py_error + 'b" where
  "and_then r f = (case r of Inl e \<Rightarrow> Inl e | Inr v \<Rightarrow> f v)"

text \<open>The results of a list of steps, up to the first one that raises.\<close>

fun all_results :: "(py_error + 'a) list \<Rightarrow> py_error + 'a list" where
  "all_results [] = Inr []"
| "all_results (r # rs) =
     (case r of
        Inl e \<Rightarrow> Inl e
      | Inr v \<Rightarrow> (case all_results rs of Inl e \<Rightarrow> Inl e | Inr vs \<Rightarrow> Inr (v # vs)))"

text \<open>A pandas call that is given \<open>storage_options=storage_options\<close>.\<close>

definition with_storage_options :: "'c env \<Rightarrow> 'c libcall \<Rightarrow> py_error + 'c pyval" where
  "with_storage_options env call =
     (if storage_options_defined env then lib env call
      else Inl (NameError ''storage_options''))"

section \<open>in\_out.py: read\<close>

definition read_preprocess :: "'c env \<Rightarrow> 'c pyval \<Rightarrow> py_error + 'c pyval" where
  "read_preprocess env df =
     (case df of
        DataFrame d \<Rightarrow>
          (let d = d\<lparr>columns := filter (\<lambda>(label, c). label \<noteq> ''Unnamed: 0'') (columns d)\<rparr>
           in if ''date'' \<in> set (map fst (columns d)) then lib env (ColsToDatetime d)
              else Inr (DataFrame d))
      | _ \<Rightarrow> Inl AttributeError)"

text \<open>The \<open>concat\<close> argument of \<open>read\<close>, when it is not \<open>None\<close>.\<close>

datatype concat_arg = ConcatStr string | ConcatList "string list"

text \<open>
  The branch of \<open>read\<close> for a \<open>model\<close> keyword. The model's \<open>load_model\<close> is tried
  first and \<open>load\<close> when that raises \<open>AttributeError\<close>; with a true \<open>assign_model\<close>
  the value of the call is returned, otherwise the model itself. The removal of the local
  folder \<open>tmp/\<close> that follows ignores errors and does not change the result.
\<close>

definition read_model ::
  "'c env \<Rightarrow> string \<Rightarrow> string \<Rightarrow> (string \<rightharpoonup> 'c pyval) \<Rightarrow> 'c pyval \<Rightarrow> py_error + 'c pyval" where
  "read_model env filepath ext kwargs model =
     and_then
       (if ext \<in> set [''pkl'', ''pickle'', ''joblib''] then lib env (OpenFile filepath ''rb'')
        else Inr (PyStr filepath))
       (\<lambda>filepath.
          and_then (case kwargs ''assign_model'' of None \<Rightarrow> Inr False | Some v \<Rightarrow> truthy v)
            (\<lambda>assign.
               case lib env (LoadModel model filepath) of
                 Inl AttributeError \<Rightarrow>
                   and_then (lib env (Load model filepath))
                     (\<lambda>loaded. Inr (if assign then loaded else model))
               | Inl e \<Rightarrow> Inl e
               | Inr loaded \<Rightarrow> Inr (if assign then loaded else model)))"

text \<open>
  The part of \<open>read\<close> below the \<open>concat\<close> block: the dispatch on the keywords and on
  the extension. When no branch applies the function ends without a \<open>return\<close>.
\<close>

definition read_file ::
  "'c env \<Rightarrow> string \<Rightarrow> string \<Rightarrow> (string \<rightharpoonup> 'c pyval) \<Rightarrow> py_error + 'c pyval" where
  "read_file env filepath ext kwargs =
     (case kwargs ''conn'' of
        Some conn \<Rightarrow> lib env (PdReadSql filepath conn)
      | None \<Rightarrow>
     (case kwargs ''model'' of
        Some model \<Rightarrow> read_model env filepath ext kwargs model
      | None \<Rightarrow>
        if ext \<in> set [''xlsx'', ''xls''] then
          and_then (with_storage_options env (PdReadExcel filepath)) (read_preprocess env)
        else if ext = ''csv'' then
          and_then (with_storage_options env (PdReadCsv filepath)) (read_preprocess env)
        else if ext = ''parquet'' then
          and_then (with_storage_options env (PdReadParquet filepath)) (read_preprocess env)
        else if ext = ''sas7bdat'' then
          and_then (with_storage_options env (PdReadSas filepath))
            (\<lambda>df. case df of
                     DataFrame d \<Rightarrow> and_then (lib env (DecodeBytes d)) (read_preprocess env)
                   | _ \<Rightarrow> Inl AttributeError)
        else if ext = ''feather'' then with_storage_options env (PdReadFeather filepath)
        else if ext \<in> set [''pkl'', ''yml'', ''yaml'', ''pickle'', ''joblib''] then
          and_then (lib env (OpenFile filepath ''rb''))
            (\<lambda>f. if ext \<in> set [''pkl'', ''pickle''] then lib env (PklLoad f)
                  else if ext = ''joblib'' then lib env (JoblibLoad filepath)
                  else lib env (YamlSafeLoad f))
        else if ext \<in> set [''txt''] then
          and_then (lib env (OpenFile filepath ''r'')) (\<lambda>f. lib env (FileRead f))
        else Inr PyNone))"

text \<open>
  \<open>read\<close>. The extension is the second component of \<open>os.path.splitext\<close> without its
  first character. In the \<open>concat\<close> block every file found by \<open>glob\<close> is read by
  \<open>read\<close> itself, with the same keywords and no \<open>concat\<close>.
\<close>

function read ::
  "'c env \<Rightarrow> string \<Rightarrow> concat_arg option \<Rightarrow> (string \<rightharpoonup> 'c pyval) \<Rightarrow> py_error + 'c pyval" where
  "read env filepath cc kwargs =
     (case adj_path (system env) filepath of
        Inl e \<Rightarrow> Inl e
      | Inr filepath \<Rightarrow>
          (let ext = drop 1 (snd (splitext env filepath));
               cc' = (if ext = [] \<and> cc = None then Some (ConcatStr ''parquet'') else cc)
           in if cc' \<noteq> None \<and> cc' \<noteq> Some (ConcatStr ''parquet'') then
                (let exts = (case cc' of Some (ConcatStr s) \<Rightarrow> [s] | Some (ConcatList l) \<Rightarrow> l
                             | None \<Rightarrow> []);
                     folder_path = filepath @ ''/'';
                     files = concat (map (\<lambda>file. glob env (folder_path @ ''/*'' @ file)) exts)
                 in if files \<noteq> [] then
                      and_then (all_results (map (\<lambda>f. read env f None kwargs) files))
                        (\<lambda>dfs. lib env (PdConcat dfs))
                    else Inr (DataFrame empty_frame))
              else if cc' = Some (ConcatStr ''parquet'') then
                and_then (with_storage_options env (PdReadParquet filepath)) (read_preprocess env)
              else read_file env filepath ext kwargs))"
  by pat_completeness auto
termination
  by (relation "measure (\<lambda>(env, filepath, cc, kwargs). if cc = None then 0 else 1)")
    (auto split: if_splits)

declare read.simps [simp del]

section \<open>in\_out.py: write\<close>

definition supported_extensions :: "string list" where
  "supported_extensions =
     [''xlsx'', ''xls'', ''csv'', ''parquet'', ''yml'', ''yaml'', ''pkl'', ''pickle'', ''ubj'',
      ''joblib'']"

text \<open>\<open>data[label] = c\<close> for a column that exists: the column keeps its place.\<close>

definition set_column :: "string \<Rightarrow> 'c \<Rightarrow> (string \<times> 'c) list \<Rightarrow> (string \<times> 'c) list" where
  "set_column label c cols = map (\<lambda>(l, old). if l = label then (l, c) else (l, old)) cols"

text \<open>
  The result of \<open>write\<close>: the exception it ends with or nothing, what it did until then,
  and the \<open>data\<close> object as the call leaves it (the parquet handler assigns to a column
  of the frame it was given, which the caller sees).
\<close>

type_synonym 'c written = "(py_error + unit) \<times> 'c io_effect list \<times> 'c pyval"

text \<open>
  The name of the column in the text of a failed parquet write:
  \<open>str(e).split("column ")[1].split(" ")[0]\<close>. The index 1 raises \<open>IndexError\<close>
  when the text does not contain \<open>column \<close>.
\<close>

definition object_columns :: "string \<Rightarrow> py_error + string" where
  "object_columns msg =
     (let parts = split_str ''column '' msg
      in if length parts < 2 then Inl IndexError
         else Inr (hd (split_str '' '' (parts ! 1))))"

text \<open>
  The text of the \<open>NameError\<close> that the read of \<open>storage_options\<close> raises inside the
  \<open>try\<close> of the parquet branch, where it is caught like a failure of the write.
\<close>

definition storage_options_undefined :: string where
  "storage_options_undefined =
     ''name '' @ [CHR 0x27] @ ''storage_options'' @ [CHR 0x27] @ '' is not defined''"

text \<open>
  The parquet branch. \<open>self\<close> is \<open>write\<close>, called again from the handler with the
  frame whose named column has been converted by \<open>astype(str)\<close>.
\<close>

definition write_parquet ::
  "('c pyval \<Rightarrow> string \<Rightarrow> 'c io_effect list \<Rightarrow> 'c written) \<Rightarrow> 'c env \<Rightarrow> 'c pyval \<Rightarrow> string \<Rightarrow>
   'c io_effect list \<Rightarrow> 'c written" where
  "write_parquet self env data filepath trace =
     (case data of
        DataFrame d \<Rightarrow>
          (case (if storage_options_defined env then to_parquet env trace d filepath
                 else Some storage_options_undefined) of
             None \<Rightarrow> (Inr (), trace @ [ToParquet d filepath], data)
           | Some msg \<Rightarrow>
               (let trace = (if storage_options_defined env then trace @ [ToParquet d filepath]
                             else trace)
                in case object_columns msg of
                     Inl e \<Rightarrow> (Inl e, trace, data)
                   | Inr label \<Rightarrow>
                       (case map_of (columns d) label of
                          None \<Rightarrow> (Inl (KeyError label), trace, data)
                        | Some c \<Rightarrow>
                            self
                              (DataFrame
                                 (d\<lparr>columns := set_column label (astype_str env c) (columns d)\<rparr>))
                              filepath trace)))
      | _ \<Rightarrow> (Inl AssertionError, trace, data))"

text \<open>
  A sheet given as \<open>{axis, dfs}\<close>: the frames of \<open>dfs\<close> one after the other on the same
  sheet, below each other (\<open>by_row\<close>) or side by side, \<open>pos\<close> being the next start row
  or start column.
\<close>

fun write_stacked ::
  "'c env \<Rightarrow> string \<Rightarrow> bool \<Rightarrow> 'c pyval list \<Rightarrow> nat \<Rightarrow> 'c io_effect list \<Rightarrow>
   (py_error + unit) \<times> 'c io_effect list" where
  "write_stacked env sheet by_row [] pos trace = (Inr (), trace)"
| "write_stacked env sheet by_row (df # dfs) pos trace =
     (case df of
        DataFrame d \<Rightarrow>
          (let trace' = trace @ [ToExcelSheet d sheet (if by_row then pos else 0)
                                   (if by_row then 0 else pos)]
           in case to_excel env trace d sheet of
                Some e \<Rightarrow> (Inl e, trace')
              | None \<Rightarrow>
                  write_stacked env sheet by_row dfs
                    (if by_row then pos + (nrows d + 1 + columns_nlevels d)
                     else pos + (length (columns d) + 1 + index_nlevels d))
                    trace')
      | _ \<Rightarrow> (Inl AttributeError, trace))"

text \<open>
  The loop over the sheets of a workbook given as a dict. A frame that \<open>to_excel\<close>
  refuses with a \<open>ValueError\<close> is written by \<open>write\<close> itself to
  \<open><sheet>.parquet\<close> beside the workbook; the source does this, and prints the message,
  twice, the second time with the frame as the first call left it. A sheet that is neither a
  frame nor a dict is skipped. The third component of the result is the list of sheets as
  the loop leaves them.
\<close>

fun write_sheets ::
  "('c pyval \<Rightarrow> string \<Rightarrow> 'c io_effect list \<Rightarrow> 'c written) \<Rightarrow> 'c env \<Rightarrow> string \<Rightarrow>
   (string \<times> 'c pyval) list \<Rightarrow> 'c io_effect list \<Rightarrow>
   (py_error + unit) \<times> 'c io_effect list \<times> (string \<times> 'c pyval) list" where
  "write_sheets self env filepath [] trace = (Inr (), trace, [])"
| "write_sheets self env filepath ((sheet, v) # rest) trace =
     (case v of
        DataFrame d \<Rightarrow>
          (case to_excel env trace d sheet of
             None \<Rightarrow>
               (case write_sheets self env filepath rest (trace @ [ToExcelSheet d sheet 0 0]) of
                  (r, trace, rest) \<Rightarrow> (r, trace, (sheet, v) # rest))
           | Some (ValueError msg) \<Rightarrow>
               (let temp_path =
                      path_join env (replace_str (basename env filepath) [] filepath) sheet
                        @ ''.parquet''
                in case self v temp_path (trace @ [ToExcelSheet d sheet 0 0]) of
                     (Inl e, trace, v) \<Rightarrow> (Inl e, trace, (sheet, v) # rest)
                   | (Inr u, trace, v) \<Rightarrow>
                       (case self v temp_path
                               (trace @ [Print (basename env filepath) sheet (ValueError msg)]) of
                          (Inl e, trace, v) \<Rightarrow> (Inl e, trace, (sheet, v) # rest)
                        | (Inr u, trace, v) \<Rightarrow>
                            (case write_sheets self env filepath rest
                                    (trace @
                                     [Print (basename env filepath) sheet (ValueError msg)]) of
                               (r, trace, rest) \<Rightarrow> (r, trace, (sheet, v) # rest))))
           | Some e \<Rightarrow> (Inl e, trace @ [ToExcelSheet d sheet 0 0], (sheet, v) # rest))
      | PyDict bundle \<Rightarrow>
          (case map_of bundle ''axis'' of
             None \<Rightarrow> (Inl (KeyError ''axis''), trace, (sheet, v) # rest)
           | Some axis \<Rightarrow>
               (case map_of bundle ''dfs'' of
                  None \<Rightarrow> (Inl (KeyError ''dfs''), trace, (sheet, v) # rest)
                | Some (PyList dfs) \<Rightarrow>
                    (if axis = PyInt 1 \<or> axis = PyBool True \<or> axis = PyStr ''row'' then
                       (case write_stacked env sheet True dfs 0 trace of
                          (Inl e, trace) \<Rightarrow> (Inl e, trace, (sheet, v) # rest)
                        | (Inr u, trace) \<Rightarrow>
                            (case write_sheets self env filepath rest trace of
                               (r, trace, rest) \<Rightarrow> (r, trace, (sheet, v) # rest)))
                     else if axis = PyInt 0 \<or> axis = PyBool False \<or> axis = PyStr ''column'' then
                       (case write_stacked env sheet False dfs 0 trace of
                          (Inl e, trace) \<Rightarrow> (Inl e, trace, (sheet, v) # rest)
                        | (Inr u, trace) \<Rightarrow>
                            (case write_sheets self env filepath rest trace of
                               (r, trace, rest) \<Rightarrow> (r, trace, (sheet, v) # rest)))
                     else
                       (case write_sheets self env filepath rest trace of
                          (r, trace, rest) \<Rightarrow> (r, trace, (sheet, v) # rest)))
                | Some other \<Rightarrow> (Inl AssertionError, trace, (sheet, v) # rest)))
      | _ \<Rightarrow>
          (case write_sheets self env filepath rest trace of
             (r, trace, rest) \<Rightarrow> (r, trace, (sheet, v) # rest)))"

text \<open>
  The spreadsheet branch. The \<open>ExcelWriter\<close> is closed when its block is left, also by
  an exception. What the library does on closing a workbook that received no sheet is not
  part of the model.
\<close>

definition write_excel ::
  "('c pyval \<Rightarrow> string \<Rightarrow> 'c io_effect list \<Rightarrow> 'c written) \<Rightarrow> 'c env \<Rightarrow> 'c pyval \<Rightarrow> string \<Rightarrow>
   'c io_effect list \<Rightarrow> 'c written" where
  "write_excel self env data filepath trace =
     (case data of
        PyDict sheets \<Rightarrow>
          (if \<not> storage_options_defined env
           then (Inl (NameError ''storage_options''), trace, data)
           else (case write_sheets self env filepath sheets (trace @ [ExcelWriterOpen filepath]) of
                   (r, trace, sheets) \<Rightarrow> (r, trace @ [ExcelWriterClose filepath], PyDict sheets)))
      | DataFrame d \<Rightarrow>
          (if \<not> storage_options_defined env
           then (Inl (NameError ''storage_options''), trace, data)
           else (Inr (), trace @ [ToExcelFile d filepath], data))
      | _ \<Rightarrow> (Inl AssertionError, trace, data))"

text \<open>
  The branch for \<open>pkl\<close>, \<open>yml\<close>, \<open>yaml\<close> and \<open>joblib\<close>. The file is opened twice
  and closed once. The dumps are recorded as effects; an exception of \<open>dict(data)\<close> or of
  a dump for a value it does not accept is not part of the model.
\<close>

definition write_dumped :: "string \<Rightarrow> 'c pyval \<Rightarrow> string \<Rightarrow> 'c io_effect list \<Rightarrow> 'c written" where
  "write_dumped ext data filepath trace =
     (let mode = (if ext \<in> set [''pkl'', ''joblib''] then ''wb'' else ''w'');
          trace = trace @ [OpenForWrite filepath mode, OpenForWrite filepath mode];
          trace = (if ext = ''pkl'' then trace @ [PklDump data]
                   else if ext \<in> set [''yml'', ''yaml''] then trace @ [YamlDump data]
                   else if ext = ''joblib'' then trace @ [JoblibDump data]
                   else trace)
      in (Inr (), trace @ [CloseFile], data))"

text \<open>
  The body of \<open>write\<close>, with \<open>self\<close> for the calls of \<open>write\<close> inside it. The
  directory created first is the parent of the adjusted path. An extension of the
  supported list that no branch handles (\<open>pickle\<close>) ends the function without writing.
\<close>

definition write_body ::
  "('c pyval \<Rightarrow> string \<Rightarrow> 'c io_effect list \<Rightarrow> 'c written) \<Rightarrow> 'c env \<Rightarrow> 'c pyval \<Rightarrow> string \<Rightarrow>
   'c io_effect list \<Rightarrow> 'c written" where
  "write_body self env data filepath trace =
     (case adj_path (system env) filepath of
        Inl e \<Rightarrow> (Inl e, trace, data)
      | Inr filepath \<Rightarrow>
          (let trace = trace @ [MakeDirsParent filepath];
               ext = last (split_str ''.'' filepath)
           in if ext \<notin> set supported_extensions then (Inl NotImplementedError, trace, data)
              else if ext \<in> set [''xlsx'', ''xls''] then write_excel self env data filepath trace
              else if ext = ''csv'' then
                (case data of
                   DataFrame d \<Rightarrow>
                     (if \<not> storage_options_defined env
                      then (Inl (NameError ''storage_options''), trace, data)
                      else (Inr (), trace @ [ToCsv d filepath], data))
                 | _ \<Rightarrow> (Inl AssertionError, trace, data))
              else if ext = ''parquet'' then write_parquet self env data filepath trace
              else if ext = ''feather'' then
                (case data of
                   DataFrame d \<Rightarrow>
                     (if \<not> storage_options_defined env
                      then (Inl (NameError ''storage_options''), trace, data)
                      else (Inr (), trace @ [ToFeather d filepath], data))
                 | _ \<Rightarrow> (Inl AssertionError, trace, data))
              else if ext \<in> set [''pkl'', ''yml'', ''yaml'', ''joblib''] then
                write_dumped ext data filepath trace
              else if ext = ''ubj'' then (Inr (), trace @ [SaveModel data filepath], data)
              else (Inr (), trace, data)))"

text \<open>
  \<open>write\<close>, with the number of nested calls of \<open>write\<close> that the interpreter still
  allows as its first argument; when none is left the call raises \<open>RecursionError\<close>.
\<close>

primrec "write" ::
  "nat \<Rightarrow> 'c env \<Rightarrow> 'c pyval \<Rightarrow> string \<Rightarrow> 'c io_effect list \<Rightarrow> 'c written" where
  "write 0 env data filepath trace = (Inl RecursionError, trace, data)"
| "write (Suc depth) env data filepath trace =
     write_body (write depth env) env data filepath trace"

section \<open>A POSIX host for the examples\<close>

text \<open>
  \<open>os.path.splitext\<close>, \<open>os.path.basename\<close> and \<open>os.path.join\<close> as \<open>posixpath\<close>
  defines them: the extension starts at the last dot of the last path component, unless
  only dots precede it there.
\<close>

definition posix_basename :: "string \<Rightarrow> string" where
  "posix_basename p = last (split_str ''/'' p)"

definition posix_splitext :: "string \<Rightarrow> string \<times> string" where
  "posix_splitext p =
     (let fname = posix_basename p
      in if CHR ''.'' \<in> set (dropWhile (\<lambda>c. c = CHR ''.'') fname)
         then (let e = last (split_str ''.'' fname)
               in (take (length p - (length e + 1)) p, CHR ''.'' # e))
         else (p, []))"

definition posix_join :: "string \<Rightarrow> string \<Rightarrow> string" where
  "posix_join a b =
     (if startswith b ''/'' then b
      else if a = [] \<or> last a = CHR ''/'' then a @ b
      else a @ ''/'' @ b)"

text \<open>
  A frame with two \<open>object\<close> columns and an integer column; the content of a column is
  given by the name of its dtype. The parquet writer of the example refuses a frame as long
  as it has an \<open>object\<close> column, naming the first one; \<open>astype(str)\<close> gives a
  \<open>str\<close> column. The directory of the example holds no file that \<open>glob\<close> finds.
\<close>

definition demo_frame :: "string dataset" where
  "demo_frame =
     \<lparr>columns = [(''a'', ''object''), (''b'', ''object''), (''n'', ''int64'')],
      nrows = 2, columns_nlevels = 1, index_nlevels = 1\<rparr>"

definition demo_to_parquet :: "string io_effect list \<Rightarrow> string dataset \<Rightarrow> string \<Rightarrow> string option" where
  "demo_to_parquet trace d filepath =
     (case filter (\<lambda>(label, c). c = ''object'') (columns d) of
        [] \<Rightarrow> None
      | (label, c) # others \<Rightarrow>
          Some (''Conversion failed for column '' @ label @ '' with type object''))"

definition demo_lib :: "string libcall \<Rightarrow> py_error + string pyval" where
  "demo_lib call =
     (case call of
        PdReadParquet p \<Rightarrow> Inr (DataFrame demo_frame)
      | _ \<Rightarrow> Inl (LibraryError ''not available''))"

definition demo_env :: "string env" where
  "demo_env =
     \<lparr>system = ''Linux'', storage_options_defined = True,
      splitext = posix_splitext, basename = posix_basename, path_join = posix_join,
      glob = (\<lambda>pattern. []), lib = demo_lib, astype_str = (\<lambda>c. ''str''),
      to_parquet = demo_to_parquet, to_excel = (\<lambda>trace d sheet. None)\<rparr>"

section \<open>Properties of the path helpers\<close>

lemma replace_str_keep:
  "c \<noteq> b \<Longrightarrow> replace_str [b] new (c # cs) = c # replace_str [b] new cs"
  by (simp add: replace_str_def)

lemma join_str_Cons: "join_str [] (p # ps) = p @ join_str [] ps"
  by (cases ps) simp_all

lemma is_linux_win_to_linux: "is_linux (win_to_linux p)"
proof (cases "is_linux p")
  case True
  then show ?thesis by (simp add: win_to_linux_def)
next
  case False
  have "CHR ''/'' \<noteq> bslash" by (simp add: bslash_def)
  then show ?thesis using False
    by (simp add: win_to_linux_def Let_def join_str_Cons replace_str_keep is_linux_def
        startswith_def)
qed

lemma is_win_not_linux: "is_win p = Inr True \<Longrightarrow> \<not> is_linux p"
  by (cases p) (auto simp: is_win_def is_linux_def startswith_def isupper_def split: if_splits)

text \<open>
  C9. For every path that \<open>is_win\<close> accepts, \<open>win_to_linux\<close> yields a path that
  \<open>is_linux\<close> accepts, and a second application of \<open>win_to_linux\<close> returns that path
  unchanged.
\<close>

theorem win_to_linux_idempotent:
  "is_win p = Inr True \<Longrightarrow>
     is_linux (win_to_linux p) \<and> win_to_linux (win_to_linux p) = win_to_linux p"
  using is_linux_win_to_linux [of p] by (simp add: win_to_linux_def [of "win_to_linux p"])

theorem win_to_linux_idempotent_witness:
  "is_win (''D:'' @ [bslash] @ ''data'') = Inr True \<and>
   win_to_linux (''D:'' @ [bslash] @ ''data'') = ''/mnt/d/data'' \<and>
   win_to_linux ''/mnt/d/data'' = ''/mnt/d/data''"
proof -
  have h: "is_win (''D:'' @ [bslash] @ ''data'') = Inr True" by code_simp
  have v: "win_to_linux (''D:'' @ [bslash] @ ''data'') = ''/mnt/d/data''" by code_simp
  show ?thesis using h v win_to_linux_idempotent [OF h] by simp
qed

text \<open>
  C8. \<open>adj_path\<close> never raises. It returns its argument when the path is in the
  dialect of the host (a drive-letter path on Windows, a path starting with \<open>/\<close> on Linux),
  it returns something else only for a drive-letter path on a Linux host (then
  \<open>win_to_linux\<close> of it) or a path starting with \<open>/\<close> on a Windows host (then
  \<open>linux_to_win\<close> of it), and when the dialect test raises \<open>IndexError\<close> (a path
  shorter than two characters) it returns its argument.
\<close>

theorem adj_path_total:
  "(\<exists>q. adj_path sys p = Inr q) \<and>
   (is_win p = Inr True \<and> lower sys = ''windows'' \<longrightarrow> adj_path sys p = Inr p) \<and>
   (is_linux p \<and> lower sys = ''linux'' \<longrightarrow> adj_path sys p = Inr p) \<and>
   (adj_path sys p \<noteq> Inr p \<longrightarrow>
      (is_win p = Inr True \<and> lower sys = ''linux'' \<and> adj_path sys p = Inr (win_to_linux p)) \<or>
      (is_win p = Inr False \<and> is_linux p \<and> lower sys = ''windows'' \<and>
       adj_path sys p = linux_to_win p)) \<and>
   (is_win p = Inl IndexError \<longrightarrow> adj_path sys p = Inr p)"
  using is_win_not_linux [of p]
  by (auto simp: adj_path_def linux_to_win_def Let_def is_win_def
      split: sum.splits bool.splits py_error.splits if_splits)

text \<open>
  C6. The round trip through \<open>win_to_linux\<close> and \<open>linux_to_win\<close> on the drive-letter
  path \<open>C:\mnt\x\<close>, whose first folder is called \<open>mnt\<close>: \<open>linux_to_win\<close> deletes
  every occurrence of \<open>/mnt/\<close>, not only the leading one, and the result is \<open>CX:\<close>.
\<close>

theorem linux_to_win_drops_mnt_folder:
  "is_win (''C:'' @ [bslash] @ ''mnt'' @ [bslash] @ ''x'') = Inr True \<and>
   win_to_linux (''C:'' @ [bslash] @ ''mnt'' @ [bslash] @ ''x'') = ''/mnt/c/mnt/x'' \<and>
   linux_to_win (win_to_linux (''C:'' @ [bslash] @ ''mnt'' @ [bslash] @ ''x'')) = Inr ''CX:'' \<and>
   linux_to_win (win_to_linux (''C:'' @ [bslash] @ ''Users'' @ [bslash] @ ''x'')) =
     Inr (''C:'' @ [bslash] @ ''Users'' @ [bslash] @ ''x'')"
  by code_simp

theorem adj_path_total_witness:
  "adj_path ''Linux'' [] = Inr [] \<and>
   adj_path ''Linux'' ''/mnt/d/data'' = Inr ''/mnt/d/data'' \<and>
   adj_path ''Windows'' (''D:'' @ [bslash] @ ''data'') = Inr (''D:'' @ [bslash] @ ''data'') \<and>
   adj_path ''Linux'' (''D:'' @ [bslash] @ ''data'') = Inr ''/mnt/d/data''"
proof -
  have a: "is_win [] = Inl IndexError" by code_simp
  have b: "is_linux ''/mnt/d/data'' \<and> lower ''Linux'' = ''linux''" by code_simp
  have c: "is_win (''D:'' @ [bslash] @ ''data'') = Inr True \<and> lower ''Windows'' = ''windows''"
    by code_simp
  have d: "adj_path ''Linux'' (''D:'' @ [bslash] @ ''data'') = Inr ''/mnt/d/data''"
    by code_simp
  show ?thesis
    using a b c d adj_path_total [of "''Linux''" "[]"]
      adj_path_total [of "''Linux''" "''/mnt/d/data''"]
      adj_path_total [of "''Windows''" "''D:'' @ [bslash] @ ''data''"]
    by simp
qed

section \<open>Properties of the instrument lookups\<close>

lemma token_lookup_find:
  "token_lookup ticker il exch =
     map_option token (find (\<lambda>i. name i = ticker \<and> exch_seg i = exch \<and> is_equity i) il)"
  by (induction il) simp_all

lemma symbol_lookup_find:
  "symbol_lookup tok il exch =
     map_option name (find (\<lambda>i. token i = tok \<and> exch_seg i = exch \<and> is_equity i) il)"
  by (induction il) simp_all

lemma token_lookup_all_equities:
  "token_lookup ticker (all_equities il) exch = token_lookup ticker il exch"
  by (induction il) (simp_all add: all_equities_def)

lemma symbol_lookup_all_equities:
  "symbol_lookup tok (all_equities il) exch = symbol_lookup tok il exch"
  by (induction il) (simp_all add: all_equities_def)

lemma token_lookup_SomeD:
  "token_lookup ticker il exch = Some tok \<Longrightarrow>
   \<exists>i \<in> set il. name i = ticker \<and> exch_seg i = exch \<and> is_equity i \<and> token i = tok"
  by (induction il) (auto split: if_splits)

lemma symbol_lookup_SomeD:
  "symbol_lookup tok il exch = Some nm \<Longrightarrow>
   \<exists>i \<in> set il. token i = tok \<and> exch_seg i = exch \<and> is_equity i \<and> name i = nm"
  by (induction il) (auto split: if_splits)

lemma token_lookup_hit:
  "i \<in> set il \<Longrightarrow> name i = ticker \<Longrightarrow> exch_seg i = exch \<Longrightarrow> is_equity i \<Longrightarrow>
   \<exists>j \<in> set il. token_lookup ticker il exch = Some (token j) \<and>
      name j = ticker \<and> exch_seg j = exch \<and> is_equity j"
  by (induction il) auto

lemma symbol_lookup_hit:
  "i \<in> set il \<Longrightarrow> token i = tok \<Longrightarrow> exch_seg i = exch \<Longrightarrow> is_equity i \<Longrightarrow>
   \<exists>j \<in> set il. symbol_lookup tok il exch = Some (name j) \<and>
      token j = tok \<and> exch_seg j = exch \<and> is_equity j"
  by (induction il) auto

lemma lookups_inverse:
  assumes H: "\<forall>i \<in> set il. \<forall>j \<in> set il.
       is_equity i \<and> is_equity j \<and> exch_seg i = exch \<and> exch_seg j = exch \<longrightarrow>
       (name i = name j \<longleftrightarrow> token i = token j)"
  shows "token_lookup ticker il exch = Some tok \<longleftrightarrow> symbol_lookup tok il exch = Some ticker"
proof
  assume "token_lookup ticker il exch = Some tok"
  then obtain i where i: "i \<in> set il" "name i = ticker" "exch_seg i = exch" "is_equity i"
    "token i = tok" using token_lookup_SomeD by blast
  then obtain j where j: "j \<in> set il" "symbol_lookup tok il exch = Some (name j)"
    "token j = tok" "exch_seg j = exch" "is_equity j"
    using symbol_lookup_hit [of i il tok exch] by blast
  with i H have "name j = name i" by metis
  with i j show "symbol_lookup tok il exch = Some ticker" by simp
next
  assume "symbol_lookup tok il exch = Some ticker"
  then obtain i where i: "i \<in> set il" "token i = tok" "exch_seg i = exch" "is_equity i"
    "name i = ticker" using symbol_lookup_SomeD by blast
  then obtain j where j: "j \<in> set il" "token_lookup ticker il exch = Some (token j)"
    "name j = ticker" "exch_seg j = exch" "is_equity j"
    using token_lookup_hit [of i il ticker exch] by blast
  with i H have "token j = token i" by metis
  with i j show "token_lookup ticker il exch = Some tok" by simp
qed

text \<open>
  C7. For every instrument list, ticker, token and exchange: \<open>token_lookup\<close> returns the
  token of the first instrument with that name and exchange whose symbol ends in \<open>-EQ\<close>,
  and \<open>None\<close> when there is none; \<open>symbol_lookup\<close> returns the name of the first
  instrument with that token and exchange whose symbol ends in \<open>-EQ\<close>, and \<open>None\<close>
  when there is none. Instruments whose symbol does not end in \<open>-EQ\<close> make no
  difference to either lookup, and on a list without equities both return \<open>None\<close>. On a
  list where, among the equities of the exchange, two instruments have the same name exactly
  when they have the same token, the lookups are inverse to each other: \<open>token_lookup\<close>
  of a ticker returns a token exactly when \<open>symbol_lookup\<close> of that token returns the
  ticker. For the instrument (FOO, FOO-EQ, NSE, 123) the lookups return 123 and FOO.
\<close>

theorem lookup_equity_inverse:
  "token_lookup ticker il exch =
     map_option token (find (\<lambda>i. name i = ticker \<and> exch_seg i = exch \<and> is_equity i) il) \<and>
   symbol_lookup tok il exch =
     map_option name (find (\<lambda>i. token i = tok \<and> exch_seg i = exch \<and> is_equity i) il) \<and>
   token_lookup ticker il exch = token_lookup ticker (all_equities il) exch \<and>
   symbol_lookup tok il exch = symbol_lookup tok (all_equities il) exch \<and>
   ((\<forall>i \<in> set il. \<not> is_equity i) \<longrightarrow>
      token_lookup ticker il exch = None \<and> symbol_lookup tok il exch = None) \<and>
   ((\<forall>i \<in> set il. \<forall>j \<in> set il.
       is_equity i \<and> is_equity j \<and> exch_seg i = exch \<and> exch_seg j = exch \<longrightarrow>
       (name i = name j \<longleftrightarrow> token i = token j)) \<longrightarrow>
      (token_lookup ticker il exch = Some tok \<longleftrightarrow> symbol_lookup tok il exch = Some ticker))"
proof (intro conjI impI)
  show "token_lookup ticker il exch =
     map_option token (find (\<lambda>i. name i = ticker \<and> exch_seg i = exch \<and> is_equity i) il)"
    by (rule token_lookup_find)
  show "symbol_lookup tok il exch =
     map_option name (find (\<lambda>i. token i = tok \<and> exch_seg i = exch \<and> is_equity i) il)"
    by (rule symbol_lookup_find)
  show "token_lookup ticker il exch = token_lookup ticker (all_equities il) exch"
    by (rule token_lookup_all_equities [symmetric])
  show "symbol_lookup tok il exch = symbol_lookup tok (all_equities il) exch"
    by (rule symbol_lookup_all_equities [symmetric])
next
  assume n: "\<forall>i \<in> set il. \<not> is_equity i"
  then show "token_lookup ticker il exch = None"
    using token_lookup_SomeD [of ticker il exch] by (cases "token_lookup ticker il exch") auto
  from n show "symbol_lookup tok il exch = None"
    using symbol_lookup_SomeD [of tok il exch] by (cases "symbol_lookup tok il exch") auto
next
  assume "\<forall>i \<in> set il. \<forall>j \<in> set il.
       is_equity i \<and> is_equity j \<and> exch_seg i = exch \<and> exch_seg j = exch \<longrightarrow>
       (name i = name j \<longleftrightarrow> token i = token j)"
  then show "token_lookup ticker il exch = Some tok \<longleftrightarrow> symbol_lookup tok il exch = Some ticker"
    by (rule lookups_inverse)
qed

theorem lookup_equity_inverse_witness:
  "token_lookup ''FOO'' [foo_eq] ''NSE'' = Some ''123'' \<and>
   symbol_lookup ''123'' [foo_eq] ''NSE'' = Some ''FOO'' \<and>
   token_lookup ''FOO'' [foo_fut] ''NSE'' = None \<and>
   symbol_lookup ''123'' [foo_fut] ''NSE'' = None \<and>
   token_lookup ''FOO'' [foo_fut, bar_eq, foo_eq] ''NSE'' = Some ''123'' \<and>
   symbol_lookup ''123'' [foo_fut, bar_eq, foo_eq] ''NSE'' = Some ''FOO''"
proof -
  have n: "\<forall>i \<in> set [foo_fut]. \<not> is_equity i" by code_simp
  have h1: "\<forall>i \<in> set [foo_eq]. \<forall>j \<in> set [foo_eq].
       is_equity i \<and> is_equity j \<and> exch_seg i = ''NSE'' \<and> exch_seg j = ''NSE'' \<longrightarrow>
       (name i = name j \<longleftrightarrow> token i = token j)" by simp
  have h3: "\<forall>i \<in> set [foo_fut, bar_eq, foo_eq]. \<forall>j \<in> set [foo_fut, bar_eq, foo_eq].
       is_equity i \<and> is_equity j \<and> exch_seg i = ''NSE'' \<and> exch_seg j = ''NSE'' \<longrightarrow>
       (name i = name j \<longleftrightarrow> token i = token j)" by code_simp
  have t1: "token_lookup ''FOO'' [foo_eq] ''NSE'' = Some ''123''" by code_simp
  have t3: "token_lookup ''FOO'' [foo_fut, bar_eq, foo_eq] ''NSE'' = Some ''123''" by code_simp
  show ?thesis
    using n h1 h3 t1 t3
      lookup_equity_inverse [of "''FOO''" "[foo_fut]" "''NSE''" "''123''"]
      lookup_equity_inverse [of "''FOO''" "[foo_eq]" "''NSE''" "''123''"]
      lookup_equity_inverse [of "''FOO''" "[foo_fut, bar_eq, foo_eq]" "''NSE''" "''123''"]
    by blast
qed

section \<open>Properties of the paged candle fetch\<close>

text \<open>
  Two facts about the loop for every day and duration: each window it requests ends strictly
  before the end date, and with a duration of at most 31 days (a range of less than 30 days)
  it requests nothing.
\<close>

lemma fetch_windows_requests:
  "fetch_windows obj ticker intv il exch end_date st te df tr = Inr (df', tr') \<Longrightarrow>
   GetCandleData p \<in> set tr' \<Longrightarrow>
   GetCandleData p \<in> set tr \<or> todate p < end_date"
proof (induction obj ticker intv il exch end_date st te df tr rule: fetch_windows.induct)
  case (1 obj ticker intv il exch end_date st te df tr)
  show ?case
  proof (cases "te < end_date")
    case False
    with "1.prems" show ?thesis by (simp add: fetch_windows.simps)
  next
    case True
    from "1.prems"(1) True obtain st' te' where
      s: "datetime_plus_days te 1 = Inr st'" and e: "datetime_plus_days st' 30 = Inr te'"
      by (subst (asm) fetch_windows.simps) (auto simp: Let_def split: sum.splits)
    let ?rq = "\<lparr>exchange = exch, symboltoken = token_lookup ticker il ''NSE'',
                 interval = intv, fromdate = st, todate = te\<rparr>"
    from "1.prems"(1) True s e have r:
      "fetch_windows obj ticker intv il exch end_date st'
         (if te' > end_date then end_date else te') (df @ obj ?rq)
         (tr @ [Sleep 400, GetCandleData ?rq]) = Inr (df', tr')"
      by (subst (asm) fetch_windows.simps) (simp add: Let_def)
    have "GetCandleData p \<in> set (tr @ [Sleep 400, GetCandleData ?rq]) \<or> todate p < end_date"
      using "1.IH" [OF True refl refl refl refl s e r "1.prems"(2)] .
    then show ?thesis using True by auto
  qed
qed

lemma short_range_no_request:
  assumes "date_minus_days today duration = Inr st_day"
    and "date_minus_days today 1 = Inr end_day"
    and "datetime_plus_days (datetime_of st_day 3 30) 30 = Inr te"
    and "duration \<le> 31"
  shows "hist_data_extended today obj ticker duration intv il exch = Inr ([], [])"
proof -
  have "st_day = today - duration" and "end_day = today - 1"
    using assms(1,2) by (auto simp: date_minus_days_def split: if_splits)
  moreover have "te = datetime_of st_day 3 30 + 30 * 1440"
    using assms(3) by (auto simp: datetime_plus_days_def split: if_splits)
  ultimately have "\<not> te < datetime_of end_day 0 0"
    using assms(4) by (simp add: datetime_of_def)
  then show ?thesis
    using assms(1-3)
    by (simp add: hist_data_extended_def Let_def fetch_windows.simps drop_duplicates_def
        set_index_date_def)
qed

text \<open>
  C1. The requests \<open>hist_data_extended\<close> issues on day 739000, for the ticker FOO. With
  a duration of 10 days (a range of less than 30 days) it issues no request and returns an
  empty frame. With a duration of 66 days (a range of 65 days less three and a half hours,
  ending at 00:00 of day 738999) it issues two requests: the second window starts one day
  after the first one ends and is 30 days long, and it ends on day 738995. The window from
  day 738996 to the end date, whose end the loop clamps, is never requested.
\<close>

theorem hist_data_extended_requests:
  "hist_data_extended 739000 no_rows ''FOO'' 10 ''ONE_DAY'' [foo_eq] ''NSE'' = Inr ([], []) \<and>
   hist_data_extended 739000 no_rows ''FOO'' 66 ''ONE_DAY'' [foo_eq] ''NSE'' =
     Inr ([],
       [Sleep 400,
        GetCandleData \<lparr>exchange = ''NSE'', symboltoken = Some ''123'', interval = ''ONE_DAY'',
          fromdate = datetime_of 738934 3 30, todate = datetime_of 738964 3 30\<rparr>,
        Sleep 400,
        GetCandleData \<lparr>exchange = ''NSE'', symboltoken = Some ''123'', interval = ''ONE_DAY'',
          fromdate = datetime_of 738965 3 30, todate = datetime_of 738995 3 30\<rparr>])"
  by code_simp

text \<open>
  C2. The frame \<open>hist_data_extended\<close> returns on day 739000 for a duration of 66 days
  (two requests). When both windows return a row for the same day with different closes,
  both rows are in the result, under the same index. When the two windows return rows for
  different days with equal prices and volume, only the first row is in the result.
\<close>

theorem hist_data_extended_duplicates:
  "map_sum id fst
     (hist_data_extended 739000 same_day_rows ''FOO'' 66 ''ONE_DAY'' [foo_eq] ''NSE'') =
     Inr [(datetime_of 738940 0 0, 100, 100, 100, 101, 7),
          (datetime_of 738940 0 0, 100, 100, 100, 102, 7)] \<and>
   map_sum id fst
     (hist_data_extended 739000 flat_rows ''FOO'' 66 ''ONE_DAY'' [foo_eq] ''NSE'') =
     Inr [(datetime_of 738934 3 30, 100, 100, 100, 100, 0)]"
  by code_simp

section \<open>More on the path helpers\<close>


lemma hd_split_from:
  "hd (split_from [c] cur s) = cur @ takeWhile (\<lambda>x. x \<noteq> c) s"
  by (induction s arbitrary: cur) auto

lemma join_str_hd: "join_str sep (p # ps) = p @ (if ps = [] then [] else sep @ join_str sep ps)"
  by (cases ps) simp_all

lemma upper_chr_slash:
  assumes "upper_chr x = CHR ''/''"
  shows "x = CHR ''/''"
proof (rule ccontr)
  assume "x \<noteq> CHR ''/''"
  with assms have l: "islower x" and e: "char_of ((of_char x :: nat) - 32) = CHR ''/''"
    by (auto simp: upper_chr_def split: if_splits)
  from e have "(of_char (char_of ((of_char x :: nat) - 32)) :: nat) = of_char (CHR ''/'')"
    by simp
  then have m: "((of_char x :: nat) - 32) mod 256 = 47"
    by simp
  from l have "(of_char x :: nat) - 32 < 256" and "65 \<le> (of_char x :: nat) - 32"
    unfolding islower_def by linarith+
  with m show False
    by simp
qed

lemma is_win_error: "is_win p = Inl e \<Longrightarrow> e = IndexError"
  by (auto simp: is_win_def split: if_splits)


lemma not_is_linux_linux_to_win:
  assumes "is_win p = Inr False" and "linux_to_win p = Inr q"
  shows "\<not> is_linux q"
proof -
  define h where "h = hd (split_str ''/'' (replace_str ''/mnt/'' [] p))"
  define t where "t = tl (split_str ''/'' (replace_str ''/mnt/'' [] p))"
  have q: "q = join_str [bslash] ((upper h @ '':'') # t)"
    using assms by (simp add: linux_to_win_def Let_def h_def t_def)
  have "CHR ''/'' \<notin> set h"
    unfolding h_def split_str_def hd_split_from
    by (auto dest: set_takeWhileD)
  then have "CHR ''/'' \<notin> set (upper h)"
    by (auto simp: upper_def dest: upper_chr_slash [OF sym])
  then have "\<not> prefix ''/'' (upper h @ '':'')"
    by (cases "upper h") auto
  then show ?thesis
    unfolding q is_linux_def startswith_def join_str_hd
    by (cases "upper h") auto
qed

lemma adj_path_cases:
  "adj_path sys p = Inr p \<or>
   (is_win p = Inr True \<and> lower sys = ''linux'' \<and> adj_path sys p = Inr (win_to_linux p)) \<or>
   (is_win p = Inr False \<and> is_linux p \<and> lower sys = ''windows'' \<and>
    adj_path sys p = linux_to_win p)"
  using is_win_not_linux [of p]
  by (auto simp: adj_path_def linux_to_win_def Let_def is_win_def
      split: sum.splits bool.splits py_error.splits if_splits)

lemma adj_path_fixed:
  assumes "is_win q \<noteq> Inr True \<or> lower sys \<noteq> ''linux''"
    and "\<not> is_linux q \<or> lower sys \<noteq> ''windows''"
  shows "adj_path sys q = Inr q"
proof (cases "is_win q")
  case (Inl e)
  then have "e = IndexError" by (rule is_win_error)
  with Inl show ?thesis by (simp add: adj_path_def)
next
  case (Inr b)
  with assms show ?thesis by (cases b) (auto simp: adj_path_def)
qed

lemma adj_path_idem:
  assumes a: "adj_path sys p = Inr q"
  shows "adj_path sys q = Inr q"
  using adj_path_cases [of sys p]
proof (elim disjE conjE)
  assume "adj_path sys p = Inr p"
  with a show ?thesis by simp
next
  assume w: "is_win p = Inr True" "lower sys = ''linux''" "adj_path sys p = Inr (win_to_linux p)"
  then have q: "q = win_to_linux p" using a by simp
  have l: "is_linux q" unfolding q by (rule is_linux_win_to_linux)
  then have "is_win q \<noteq> Inr True" using is_win_not_linux by blast
  then show ?thesis using w by (intro adj_path_fixed) simp_all
next
  assume w: "is_win p = Inr False" "is_linux p" "lower sys = ''windows''"
    "adj_path sys p = linux_to_win p"
  then have "linux_to_win p = Inr q" using a by simp
  then have "\<not> is_linux q" using not_is_linux_linux_to_win w by blast
  then show ?thesis using w by (intro adj_path_fixed) simp_all
qed

section \<open>Properties of read\<close>

text \<open>
  C5. \<open>read\<close> on a path without extension and without \<open>concat\<close> hands the adjusted
  path itself to \<open>pd.read_parquet\<close>, which reads a directory of parquet files as one
  frame, and passes the result through \<open>read_preprocess\<close>. \<open>read\<close> with a
  \<open>concat\<close> other than the string \<open>parquet\<close> looks for files with \<open>glob\<close>, one
  pattern per extension, and returns the empty frame when no pattern finds a file.
\<close>

theorem read_directory:
  "adj_path (system env) filepath = Inr fp \<Longrightarrow>
     (drop 1 (snd (splitext env fp)) = [] \<longrightarrow>
        read env filepath None kwargs =
          and_then (with_storage_options env (PdReadParquet fp)) (read_preprocess env)) \<and>
     (cc \<noteq> ConcatStr ''parquet'' \<and>
      (\<forall>file \<in> set (case cc of ConcatStr s \<Rightarrow> [s] | ConcatList l \<Rightarrow> l).
         glob env (fp @ ''/'' @ ''/*'' @ file) = []) \<longrightarrow>
        read env filepath (Some cc) kwargs = Inr (DataFrame empty_frame))"
  by (simp add: read.simps [of env filepath None kwargs]
      read.simps [of env filepath "Some cc" kwargs] Let_def split: concat_arg.splits)

theorem read_directory_witness:
  "read demo_env ''data'' None Map.empty = Inr (DataFrame demo_frame) \<and>
   read demo_env ''data'' (Some (ConcatStr ''csv'')) Map.empty = Inr (DataFrame empty_frame)"
proof -
  have a: "adj_path (system demo_env) ''data'' = Inr ''data''" by code_simp
  have b: "drop 1 (snd (splitext demo_env ''data'')) = []" by code_simp
  have c: "and_then (with_storage_options demo_env (PdReadParquet ''data''))
             (read_preprocess demo_env) = Inr (DataFrame demo_frame)" by code_simp
  have d: "\<forall>file \<in> set (case ConcatStr ''csv'' of ConcatStr s \<Rightarrow> [s] | ConcatList l \<Rightarrow> l).
         glob demo_env (''data'' @ ''/'' @ ''/*'' @ file) = []"
    by (simp add: demo_env_def)
  show ?thesis
    using b c d read_directory [OF a, of Map.empty "ConcatStr ''csv''"] by simp
qed

text \<open>
  C10. \<open>read\<close> without \<open>concat\<close>, \<open>conn\<close> and \<open>model\<close>, on a path whose
  extension is not empty and is none of the twelve extensions the dispatch knows, returns
  \<open>None\<close> and raises nothing. The condition on \<open>concat\<close> is needed: with a
  \<open>concat\<close> the function returns from the \<open>concat\<close> block, before the dispatch on the
  extension.
\<close>

theorem read_unknown_extension:
  "adj_path (system env) filepath = Inr fp \<Longrightarrow>
   drop 1 (snd (splitext env fp)) = ext \<Longrightarrow>
   ext \<noteq> [] \<Longrightarrow>
   ext \<notin> set [''xlsx'', ''xls'', ''csv'', ''parquet'', ''sas7bdat'', ''feather'', ''pkl'',
              ''pickle'', ''joblib'', ''yml'', ''yaml'', ''txt''] \<Longrightarrow>
   kwargs ''conn'' = None \<Longrightarrow>
   kwargs ''model'' = None \<Longrightarrow>
     read env filepath None kwargs = Inr PyNone"
  by (simp add: read.simps [of env filepath None kwargs] Let_def read_file_def)

theorem read_unknown_extension_witness:
  "read demo_env ''model.ubj'' None Map.empty = Inr PyNone"
proof -
  have a: "adj_path (system demo_env) ''model.ubj'' = Inr ''model.ubj''" by code_simp
  have b: "drop 1 (snd (splitext demo_env ''model.ubj'')) = ''ubj''" by code_simp
  show ?thesis
    using read_unknown_extension [OF a b, of Map.empty] by simp
qed

text \<open>
  The example for C10 as the claim has it, without a condition on \<open>concat\<close>: the
  directory \<open>runs.v2\<close> has the extension \<open>v2\<close>, there is neither \<open>conn\<close> nor
  \<open>model\<close>, and with \<open>concat="csv"\<close> the result of \<open>read\<close> is the empty frame,
  where without \<open>concat\<close> it is \<open>None\<close>.
\<close>

theorem read_unknown_extension_concat:
  "adj_path (system demo_env) ''runs.v2'' = Inr ''runs.v2'' \<and>
   drop 1 (snd (splitext demo_env ''runs.v2'')) = ''v2'' \<and>
   read demo_env ''runs.v2'' (Some (ConcatStr ''csv'')) Map.empty = Inr (DataFrame empty_frame) \<and>
   read demo_env ''runs.v2'' None Map.empty = Inr PyNone"
  by code_simp

section \<open>Properties of write\<close>

text \<open>
  C4. \<open>write\<close> on a path whose extension (the text after the last dot of the adjusted
  path) is not in the list of supported extensions raises \<open>NotImplementedError\<close> after
  it has created the parent directory and before any writer is called; \<open>feather\<close> is not
  in the list, so the \<open>feather\<close> branch below the check is never reached.
\<close>

theorem write_unsupported_extension:
  "adj_path (system env) filepath = Inr fp \<Longrightarrow>
   last (split_str ''.'' fp) \<notin> set supported_extensions \<Longrightarrow>
     write (Suc depth) env data filepath trace =
       (Inl NotImplementedError, trace @ [MakeDirsParent fp], data) \<and>
     ''feather'' \<notin> set supported_extensions"
  by (simp add: write_body_def Let_def) (simp add: supported_extensions_def)

theorem write_unsupported_extension_witness:
  "write 1 demo_env (DataFrame demo_frame) ''out.feather'' [] =
     (Inl NotImplementedError, [MakeDirsParent ''out.feather''], DataFrame demo_frame)"
proof -
  have a: "adj_path (system demo_env) ''out.feather'' = Inr ''out.feather''" by code_simp
  have b: "last (split_str ''.'' ''out.feather'') \<notin> set supported_extensions" by code_simp
  show ?thesis
    using write_unsupported_extension [OF a b, of 0 "DataFrame demo_frame" "[]"] by simp
qed

lemma parquet_dispatch:
  assumes "adj_path (system env) filepath = Inr fp" and "last (split_str ''.'' fp) = ''parquet''"
  shows "write (Suc depth) env data filepath trace =
           write_parquet (write depth env) env data fp (trace @ [MakeDirsParent fp])"
  using assms by (simp add: write_body_def Let_def supported_extensions_def)

lemma write_parquet_errors:
  assumes "adj_path (system env) filepath = Inr fp" and "last (split_str ''.'' fp) = ''parquet''"
    and "write depth env (DataFrame d) filepath trace = (Inl e, t, v)"
  shows "e = IndexError \<or> e = RecursionError \<or> (\<exists>label. e = KeyError label)"
  using assms
proof (induction depth arbitrary: d filepath trace)
  case 0
  then show ?case by simp
next
  case (Suc depth)
  have idem: "adj_path (system env) fp = Inr fp"
    using Suc.prems(1) by (rule adj_path_idem)
  have w: "write_parquet (write depth env) env (DataFrame d) fp (trace @ [MakeDirsParent fp]) =
      (Inl e, t, v)"
    using Suc.prems parquet_dispatch [OF Suc.prems(1,2)] by simp
  show ?case
  proof (cases "if storage_options_defined env
                then to_parquet env (trace @ [MakeDirsParent fp]) d fp
                else Some storage_options_undefined")
    case None
    with w show ?thesis by (simp add: write_parquet_def)
  next
    case (Some msg)
    show ?thesis
    proof (cases "object_columns msg")
      case (Inl e')
      then have "e' = IndexError"
        by (auto simp: object_columns_def Let_def split: if_splits)
      with w Some Inl show ?thesis by (simp add: write_parquet_def Let_def)
    next
      case (Inr label)
      show ?thesis
      proof (cases "map_of (columns d) label")
        case None
        with w Some Inr show ?thesis by (auto simp: write_parquet_def Let_def)
      next
        case (Some c)
        with w \<open>_ = Some msg\<close> Inr obtain d' trace' where
          "write depth env (DataFrame d') fp trace' = (Inl e, t, v)"
          by (simp add: write_parquet_def Let_def)
        then show ?thesis using Suc.IH [OF idem Suc.prems(2)] by blast
      qed
    qed
  qed
qed

text \<open>
  C3. The parquet branch of \<open>write\<close>, for a path whose adjusted form ends in
  \<open>.parquet\<close>. When the write fails with a text that names a column of the frame after
  \<open>column \<close>, the column is converted with \<open>astype(str)\<close> and \<open>write\<close> is called
  again with the changed frame, so that the retry runs under the same handler and a further
  failure that names a column starts a further conversion and retry. The error of a failed
  attempt does not leave \<open>write\<close>: a call ends without error, or with the
  \<open>IndexError\<close> or \<open>KeyError\<close> of the handler, or with \<open>RecursionError\<close>.
\<close>

theorem write_parquet_retry:
  assumes "adj_path (system env) filepath = Inr fp" and "last (split_str ''.'' fp) = ''parquet''"
  shows
    "(storage_options_defined env \<and>
      to_parquet env (trace @ [MakeDirsParent fp]) d fp = Some msg \<and>
      object_columns msg = Inr label \<and> map_of (columns d) label = Some c \<longrightarrow>
        write (Suc depth) env (DataFrame d) filepath trace =
          write depth env
            (DataFrame (d\<lparr>columns := set_column label (astype_str env c) (columns d)\<rparr>))
            fp (trace @ [MakeDirsParent fp, ToParquet d fp])) \<and>
     (\<forall>e t v. write depth env (DataFrame d) filepath trace = (Inl e, t, v) \<longrightarrow>
        e = IndexError \<or> e = RecursionError \<or> (\<exists>l. e = KeyError l))"
proof (intro conjI impI allI)
  assume "storage_options_defined env \<and>
      to_parquet env (trace @ [MakeDirsParent fp]) d fp = Some msg \<and>
      object_columns msg = Inr label \<and> map_of (columns d) label = Some c"
  then show "write (Suc depth) env (DataFrame d) filepath trace =
          write depth env
            (DataFrame (d\<lparr>columns := set_column label (astype_str env c) (columns d)\<rparr>))
            fp (trace @ [MakeDirsParent fp, ToParquet d fp])"
    unfolding parquet_dispatch [OF assms] by (simp add: write_parquet_def Let_def)
next
  fix e t v
  assume "write depth env (DataFrame d) filepath trace = (Inl e, t, v)"
  then show "e = IndexError \<or> e = RecursionError \<or> (\<exists>l. e = KeyError l)"
    using write_parquet_errors [OF assms] by blast
qed

theorem write_parquet_retry_witness:
  "write 3 demo_env (DataFrame demo_frame) ''out.parquet'' [] =
     write 2 demo_env
       (DataFrame (demo_frame\<lparr>columns := [(''a'', ''str''), (''b'', ''object''), (''n'', ''int64'')]\<rparr>))
       ''out.parquet'' [MakeDirsParent ''out.parquet'', ToParquet demo_frame ''out.parquet''] \<and>
   fst (write 2 demo_env (DataFrame demo_frame) ''out.parquet'' []) = Inl RecursionError"
proof -
  have a: "adj_path (system demo_env) ''out.parquet'' = Inr ''out.parquet''" by code_simp
  have b: "last (split_str ''.'' ''out.parquet'') = ''parquet''" by code_simp
  have c: "storage_options_defined demo_env \<and>
      to_parquet demo_env ([] @ [MakeDirsParent ''out.parquet'']) demo_frame ''out.parquet'' =
        Some ''Conversion failed for column a with type object'' \<and>
      object_columns ''Conversion failed for column a with type object'' = Inr ''a'' \<and>
      map_of (columns demo_frame) ''a'' = Some ''object''" by code_simp
  have d: "demo_frame\<lparr>columns := set_column ''a'' (astype_str demo_env ''object'') (columns demo_frame)\<rparr>
      = demo_frame\<lparr>columns := [(''a'', ''str''), (''b'', ''object''), (''n'', ''int64'')]\<rparr>"
    by code_simp
  have e: "fst (write 2 demo_env (DataFrame demo_frame) ''out.parquet'' []) = Inl RecursionError"
    by code_simp
  have s: "Suc 2 = 3" by simp
  from write_parquet_retry [OF a b, of "[]" demo_frame
      "''Conversion failed for column a with type object''" "''a''" "''object''" 2,
      unfolded s] c d
  have "write 3 demo_env (DataFrame demo_frame) ''out.parquet'' [] =
     write 2 demo_env
       (DataFrame (demo_frame\<lparr>columns := [(''a'', ''str''), (''b'', ''object''), (''n'', ''int64'')]\<rparr>))
       ''out.parquet'' [MakeDirsParent ''out.parquet'', ToParquet demo_frame ''out.parquet'']"
    by simp
  with e show ?thesis by (rule conjI [rotated])
qed

text \<open>
  The example for C3 as the claim has it: the first attempt fails and names column \<open>a\<close>,
  the retry fails and names column \<open>b\<close>, a second conversion and a third attempt follow,
  and \<open>write\<close> ends without error.
\<close>

theorem write_parquet_second_retry:
  "demo_to_parquet [MakeDirsParent ''out.parquet''] demo_frame ''out.parquet'' =
     Some ''Conversion failed for column a with type object'' \<and>
   demo_to_parquet
     [MakeDirsParent ''out.parquet'', ToParquet demo_frame ''out.parquet'',
      MakeDirsParent ''out.parquet'']
     (demo_frame\<lparr>columns := [(''a'', ''str''), (''b'', ''object''), (''n'', ''int64'')]\<rparr>)
     ''out.parquet'' =
     Some ''Conversion failed for column b with type object'' \<and>
   write 3 demo_env (DataFrame demo_frame) ''out.parquet'' [] =
     (Inr (),
      [MakeDirsParent ''out.parquet'',
       ToParquet demo_frame ''out.parquet'',
       MakeDirsParent ''out.parquet'',
       ToParquet
         (demo_frame\<lparr>columns := [(''a'', ''str''), (''b'', ''object''), (''n'', ''int64'')]\<rparr>)
         ''out.parquet'',
       MakeDirsParent ''out.parquet'',
       ToParquet
         (demo_frame\<lparr>columns := [(''a'', ''str''), (''b'', ''str''), (''n'', ''int64'')]\<rparr>)
         ''out.parquet''],
      DataFrame
        (demo_frame\<lparr>columns := [(''a'', ''str''), (''b'', ''str''), (''n'', ''int64'')]\<rparr>))"
  by code_simp

end
